theory Spec2Isabelle
  imports Complex_Main "HOL-Library.Sublist"
begin

section \<open>Prompt-budget management of agentUniverse (prompt\_util.py)\<close>

text \<open>
  A shallow embedding of \<^verbatim>\<open>src/agentuniverse/base/util/prompt_util.py\<close>: the
  chunker \<^verbatim>\<open>split_text_on_tokens\<close>, the splitter \<^verbatim>\<open>split_texts\<close> with its
  single retry, \<^verbatim>\<open>truncate_content\<close>, the two summarizers and the controller
  \<^verbatim>\<open>process_llm_token\<close>.

  Conventions of the embedding:
  \<^item> a Python exception is a value \<open>Exn kind message\<close>; a function that can raise
    returns \<open>exn + 'a\<close> with \<open>Inl\<close> for the exception;
  \<^item> a computation that may run forever returns an \<open>option\<close>: \<open>None\<close> means that
    the call never returns;
  \<^item> the language models are stateful collaborators (a tokenizer may fail on one call
    and answer the next), so every call of one threads a state \<open>'s\<close>;
  \<^item> Python integers are unbounded: \<open>int\<close>.
\<close>

subsection \<open>Python values, exceptions, slices\<close>

datatype exn_kind =
  ZeroDivisionError | TypeError | IndexError | AttributeError | ValueError | OtherError

text \<open>\<open>str e\<close> is Python's \<^verbatim>\<open>str(e)\<close>, the message of the exception.\<close>

datatype exn = Exn (kind: exn_kind) (str: string)

text \<open>
  The values the controller handles: \<^verbatim>\<open>planner_input.get('background')\<close> is a
  string, or \<^verbatim>\<open>None\<close> when the key is missing.
\<close>

datatype pyval = PyNone | PyStr string

text \<open>
  Python's slice indices: a negative index counts from the end, and every index is
  clipped to \<open>0 .. len\<close>. \<open>slice_from t i\<close> is \<^verbatim>\<open>t[i:]\<close>, \<open>slice t i j\<close> is
  \<^verbatim>\<open>t[i:j]\<close> (empty when the clipped stop is not after the clipped start).
\<close>

definition clamp_index :: "nat \<Rightarrow> int \<Rightarrow> nat" where
  "clamp_index n i = (if i < 0 then nat (max (i + int n) 0) else min (nat i) n)"

definition slice_from :: "string \<Rightarrow> int \<Rightarrow> string" where
  "slice_from text i = drop (clamp_index (length text) i) text"

definition slice :: "string \<Rightarrow> int \<Rightarrow> int \<Rightarrow> string" where
  "slice text i j =
     (let a = clamp_index (length text) i; b = clamp_index (length text) j
      in take (b - a) (drop a text))"

subsection \<open>Floating point\<close>

text \<open>
  \<^verbatim>\<open>len(text) / text_token\<close> and \<^verbatim>\<open>chunk_size * char_per_token\<close> are computed
  in binary floating point. The embedding does not fix the rounding: every function
  below takes the rounding \<open>fl\<close> of the Python runtime as a parameter and applies it
  where Python rounds (to the quotient, to the integer converted to a float, to the
  product). \<^verbatim>\<open>int(x)\<close> truncates towards zero: \<open>py_int\<close>. The theorems hold for
  every \<open>fl\<close> unless they say otherwise; \<open>exact\<close> is the rounding that leaves a
  value as it is, which is what IEEE arithmetic does on the values of the concrete
  evaluations below (small integers and binary fractions).
\<close>

definition py_int :: "real \<Rightarrow> int" where
  "py_int x = (if 0 \<le> x then \<lfloor>x\<rfloor> else \<lceil>x\<rceil>)"

definition exact :: "real \<Rightarrow> real" where
  "exact x = x"

subsection \<open>The chunker: split\_text\_on\_tokens\<close>

text \<open>
  \<^verbatim>\<open>char_per_token = len(text) / text_token\<close>, and
  \<^verbatim>\<open>int(tokens * char_per_token)\<close> for \<open>chunk_char_size\<close> and
  \<open>chunk_char_overlap\<close>.
\<close>

definition char_per_token :: "(real \<Rightarrow> real) \<Rightarrow> string \<Rightarrow> int \<Rightarrow> real" where
  "char_per_token fl text text_token = fl (real (length text) / real_of_int text_token)"

definition chunk_chars :: "(real \<Rightarrow> real) \<Rightarrow> int \<Rightarrow> real \<Rightarrow> int" where
  "chunk_chars fl tokens cpt = py_int (fl (fl (real_of_int tokens) * cpt))"

text \<open>
  The \<^verbatim>\<open>while\<close> loop of the chunker, with its two local variables
  \<open>current_position\<close> and \<open>result\<close> as arguments. Nothing in the source makes the
  cursor advance, so the loop is a partial function.
\<close>

partial_function (option) split_loop ::
  "string \<Rightarrow> int \<Rightarrow> int \<Rightarrow> int \<Rightarrow> string list \<Rightarrow> string list option" where
  "split_loop text chunk_char_size chunk_char_overlap current_position result =
     (if current_position + chunk_char_overlap < int (length text) then
        (let chunk = (if current_position + chunk_char_size \<ge> int (length text)
                      then slice_from text current_position
                      else slice text current_position (current_position + chunk_char_size))
         in split_loop text chunk_char_size chunk_char_overlap
              (current_position + (chunk_char_size - chunk_char_overlap)) (result @ [chunk]))
      else Some result)"

declare split_loop.simps [code]

text \<open>
  \<^verbatim>\<open>len(None)\<close> raises a \<^verbatim>\<open>TypeError\<close>; the division raises
  \<^verbatim>\<open>ZeroDivisionError\<close> when \<open>text_token\<close> is \<open>0\<close>.
\<close>

definition split_text_on_tokens ::
  "(real \<Rightarrow> real) \<Rightarrow> pyval \<Rightarrow> int \<Rightarrow> int \<Rightarrow> int \<Rightarrow> (exn + string list) option" where
  "split_text_on_tokens fl text text_token chunk_size chunk_overlap =
     (case text of
        PyNone \<Rightarrow> Some (Inl (Exn TypeError ''object of type 'NoneType' has no len()''))
      | PyStr t \<Rightarrow>
          if text_token = 0 then Some (Inl (Exn ZeroDivisionError ''division by zero''))
          else
            (let cpt = char_per_token fl t text_token;
                 chunk_char_size = chunk_chars fl chunk_size cpt;
                 chunk_char_overlap = chunk_chars fl chunk_overlap cpt
             in map_option Inr (split_loop t chunk_char_size chunk_char_overlap 0 [])))"

subsection \<open>The language model and the registries\<close>

text \<open>
  What the code uses of an \<^verbatim>\<open>LLM\<close>: the token estimator \<^verbatim>\<open>get_num_tokens\<close>
  (it may raise, and it may answer differently from one call to the next), the two
  limits, and the two langchain summarization chains built on the model
  (\<^verbatim>\<open>load_summarize_chain(...).arun(documents)\<close>, run to completion by
  \<^verbatim>\<open>asyncio.run\<close>). \<open>'p\<close> is the type of the prompt objects of the prompt
  registry.
\<close>

record ('s, 'p) llm =
  get_num_tokens :: "pyval \<Rightarrow> 's \<Rightarrow> (exn + int) \<times> 's"
  max_context_length :: int
  max_tokens :: int
  stuff_chain :: "'p \<Rightarrow> pyval list \<Rightarrow> 's \<Rightarrow> (exn + string) \<times> 's"
  map_reduce_chain :: "'p \<Rightarrow> 'p \<Rightarrow> string list \<Rightarrow> 's \<Rightarrow> (exn + string) \<times> 's"

subsection \<open>The splitter: split\_texts\<close>

text \<open>The body of the \<^verbatim>\<open>try\<close>: the \<^verbatim>\<open>for\<close> loop over the texts.\<close>

fun split_texts_loop ::
  "(real \<Rightarrow> real) \<Rightarrow> ('s, 'p) llm \<Rightarrow> int \<Rightarrow> int \<Rightarrow> pyval list \<Rightarrow> string list \<Rightarrow> 's
     \<Rightarrow> ((exn + string list) \<times> 's) option" where
  "split_texts_loop fl agent_llm chunk_size chunk_overlap [] split_texts_res s =
     Some (Inr split_texts_res, s)"
| "split_texts_loop fl agent_llm chunk_size chunk_overlap (text # texts) split_texts_res s =
     (case get_num_tokens agent_llm text s of
        (Inl e, s') \<Rightarrow> Some (Inl e, s')
      | (Inr text_token, s') \<Rightarrow>
          (case split_text_on_tokens fl text text_token chunk_size chunk_overlap of
             None \<Rightarrow> None
           | Some (Inl e) \<Rightarrow> Some (Inl e, s')
           | Some (Inr chunks) \<Rightarrow>
               split_texts_loop fl agent_llm chunk_size chunk_overlap texts
                 (split_texts_res @ chunks) s'))"

text \<open>
  \<^verbatim>\<open>except Exception as e\<close>: with \<open>retry\<close> the function calls itself with
  \<^verbatim>\<open>retry=False\<close> and no chunk parameters (so with the defaults 800 and 100);
  without, it raises \<^verbatim>\<open>ValueError("split text failed, exception=" + str(e))\<close>.
\<close>

function split_texts ::
  "(real \<Rightarrow> real) \<Rightarrow> pyval list \<Rightarrow> ('s, 'p) llm \<Rightarrow> int \<Rightarrow> int \<Rightarrow> bool \<Rightarrow> 's
     \<Rightarrow> ((exn + string list) \<times> 's) option" where
  "split_texts fl texts agent_llm chunk_size chunk_overlap retry s =
     (case split_texts_loop fl agent_llm chunk_size chunk_overlap texts [] s of
        None \<Rightarrow> None
      | Some (Inr split_texts_res, s') \<Rightarrow> Some (Inr split_texts_res, s')
      | Some (Inl e, s') \<Rightarrow>
          if retry then split_texts fl texts agent_llm 800 100 False s'
          else Some (Inl (Exn ValueError (''split text failed, exception='' @ str e)), s'))"
  by pat_completeness auto
termination
  by (relation "measure (\<lambda>(fl, texts, agent_llm, chunk_size, chunk_overlap, retry, s).
                   if retry then 1 else 0)") auto

declare split_texts.simps [simp del]

subsection \<open>truncate\_content\<close>

text \<open>
  \<^verbatim>\<open>str(split_texts(texts=[content], chunk_size=token_length, agent_llm=agent_llm)[0])\<close>:
  indexing an empty list raises \<^verbatim>\<open>IndexError\<close>, outside the \<^verbatim>\<open>try\<close> of
  \<open>split_texts\<close>.
\<close>

definition truncate_content ::
  "(real \<Rightarrow> real) \<Rightarrow> pyval \<Rightarrow> int \<Rightarrow> ('s, 'p) llm \<Rightarrow> 's \<Rightarrow> ((exn + string) \<times> 's) option" where
  "truncate_content fl content token_length agent_llm s =
     (case split_texts fl [content] agent_llm token_length 100 True s of
        None \<Rightarrow> None
      | Some (Inl e, s') \<Rightarrow> Some (Inl e, s')
      | Some (Inr [], s') \<Rightarrow> Some (Inl (Exn IndexError ''list index out of range''), s')
      | Some (Inr (chunk # _), s') \<Rightarrow> Some (Inr chunk, s'))"

subsection \<open>The summarizers\<close>

text \<open>
  \<open>prompt_manager\<close> is \<^verbatim>\<open>PromptManager().get_instance_obj\<close>, the prompt registry.
\<close>

definition summarize_by_stuff ::
  "(string \<Rightarrow> exn + 'p) \<Rightarrow> pyval list \<Rightarrow> ('s, 'p) llm \<Rightarrow> string \<Rightarrow> 's
     \<Rightarrow> ((exn + string) \<times> 's) option" where
  "summarize_by_stuff prompt_manager texts llm summary_prompt_version s =
     (case prompt_manager summary_prompt_version of
        Inl e \<Rightarrow> Some (Inl e, s)
      | Inr summary_prompt \<Rightarrow> Some (stuff_chain llm summary_prompt texts s))"

definition summarize_by_map_reduce ::
  "(real \<Rightarrow> real) \<Rightarrow> (string \<Rightarrow> exn + 'p) \<Rightarrow> pyval list \<Rightarrow> ('s, 'p) llm \<Rightarrow> ('s, 'p) llm
     \<Rightarrow> string \<Rightarrow> string \<Rightarrow> 's \<Rightarrow> ((exn + string) \<times> 's) option" where
  "summarize_by_map_reduce fl prompt_manager texts llm agent_llm summary_prompt_version
       combine_prompt_version s =
     (case split_texts fl texts agent_llm 800 100 True s of
        None \<Rightarrow> None
      | Some (Inl e, s') \<Rightarrow> Some (Inl e, s')
      | Some (Inr chunks, s') \<Rightarrow>
          (case prompt_manager summary_prompt_version of
             Inl e \<Rightarrow> Some (Inl e, s')
           | Inr summary_prompt \<Rightarrow>
               (case prompt_manager combine_prompt_version of
                  Inl e \<Rightarrow> Some (Inl e, s')
                | Inr combine_prompt \<Rightarrow>
                    Some (map_reduce_chain llm summary_prompt combine_prompt chunks s'))))"

subsection \<open>The controller: process\_llm\_token\<close>

text \<open>
  Modelled from the spec: \<^verbatim>\<open>PromptProcessEnum\<close> of
  \<^verbatim>\<open>agentuniverse.prompt.enum\<close>, which is not among the sources. Its members are
  TRUNCATE, STUFF and MAP\_REDUCE with the values \<^verbatim>\<open>'truncate'\<close>, \<^verbatim>\<open>'stuff'\<close>
  and \<^verbatim>\<open>'map_reduce'\<close>; a malformed policy value is a configuration error.
\<close>

datatype PromptProcessEnum = TRUNCATE | STUFF | MAP_REDUCE

fun enum_value :: "PromptProcessEnum \<Rightarrow> string" where
  "enum_value TRUNCATE = ''truncate''"
| "enum_value STUFF = ''stuff''"
| "enum_value MAP_REDUCE = ''map_reduce''"

definition from_value :: "string \<Rightarrow> exn + PromptProcessEnum" where
  "from_value v =
     (if v = enum_value TRUNCATE then Inr TRUNCATE
      else if v = enum_value STUFF then Inr STUFF
      else if v = enum_value MAP_REDUCE then Inr MAP_REDUCE
      else Inl (Exn ValueError (''invalid prompt processor type: '' @ v)))"

text \<open>
  The profile: \<^verbatim>\<open>profile['llm_model']\<close> with its keys \<^verbatim>\<open>name\<close> and
  \<^verbatim>\<open>prompt_processor\<close>, and the four keys of the latter. A key that is missing
  reads as \<open>None\<close>, as \<^verbatim>\<open>dict.get\<close> does.
\<close>

record prompt_processor_conf =
  pp_type :: "string option"
  pp_llm :: "string option"
  pp_summary_prompt_version :: "string option"
  pp_combine_prompt_version :: "string option"

record llm_model_conf =
  llm_name :: "string option"
  llm_prompt_processor :: "prompt_processor_conf option"

record profile =
  profile_llm_model :: "llm_model_conf option"

text \<open>\<^verbatim>\<open>dict()\<close>, the empty configuration.\<close>

definition empty_conf :: prompt_processor_conf where
  "empty_conf = \<lparr>pp_type = None, pp_llm = None, pp_summary_prompt_version = None,
                   pp_combine_prompt_version = None\<rparr>"

text \<open>
  \<^verbatim>\<open>x or d\<close> on an optional string: \<open>None\<close> and the empty string are falsy.
  \<open>py_or\<close> has a string as default, \<open>py_or_opt\<close> a value that may itself be
  \<open>None\<close> (the model name read from the profile).
\<close>

definition py_or :: "string option \<Rightarrow> string \<Rightarrow> string" where
  "py_or v d = (case v of None \<Rightarrow> d | Some x \<Rightarrow> if x = [] then d else x)"

definition py_or_opt :: "string option \<Rightarrow> string option \<Rightarrow> string option" where
  "py_or_opt v d = (case v of None \<Rightarrow> d | Some x \<Rightarrow> if x = [] then d else Some x)"

text \<open>
  A langchain \<^verbatim>\<open>PromptTemplate\<close>: the variables it declares and its
  \<^verbatim>\<open>format\<close>, which raises when a variable is missing.
\<close>

record prompt_template =
  input_variables :: "string list"
  format :: "(string \<rightharpoonup> pyval) \<Rightarrow> exn + string"

text \<open>
  The assignment \<^verbatim>\<open>planner_input['background'] = f(...)\<close>: when the call on
  the right-hand side raises or never returns, the dictionary is left as it was.
\<close>

definition store_background ::
  "(string \<rightharpoonup> pyval) \<Rightarrow> ((exn + string) \<times> 's) option
     \<Rightarrow> ((exn + unit) \<times> (string \<rightharpoonup> pyval) \<times> 's) option" where
  "store_background planner_input r =
     (case r of
        None \<Rightarrow> None
      | Some (Inl e, s') \<Rightarrow> Some (Inl e, planner_input, s')
      | Some (Inr b, s') \<Rightarrow> Some (Inr (), planner_input(''background'' \<mapsto> PyStr b), s'))"

text \<open>
  \<open>llm_manager\<close> is \<^verbatim>\<open>LLMManager().get_instance_obj\<close>, the model registry.
  The function mutates \<open>planner_input\<close> in place, so the dictionary is part of the
  result whether the call returns or raises; the only assignment is the one to
  \<^verbatim>\<open>planner_input['background']\<close>.
\<close>

definition process_llm_token ::
  "(real \<Rightarrow> real) \<Rightarrow> (string option \<Rightarrow> exn + ('s, 'p) llm) \<Rightarrow> (string \<Rightarrow> exn + 'p)
     \<Rightarrow> prompt_template \<Rightarrow> profile \<Rightarrow> (string \<rightharpoonup> pyval) \<Rightarrow> 's
     \<Rightarrow> ((exn + unit) \<times> (string \<rightharpoonup> pyval) \<times> 's) option" where
  "process_llm_token fl llm_manager prompt_manager prompt_template profile planner_input s =
     (case profile_llm_model profile of
        None \<Rightarrow>
          Some (Inl (Exn AttributeError
                       (CHR 0x27 # ''NoneType' object has no attribute 'get'' @ [CHR 0x27])),
                planner_input, s)
      | Some llm_model \<Rightarrow>
          (let prompt_processor =
                 (case llm_prompt_processor llm_model of None \<Rightarrow> empty_conf | Some d \<Rightarrow> d);
               prompt_processor_type = py_or (pp_type prompt_processor) (enum_value TRUNCATE);
               prompt_processor_llm = py_or_opt (pp_llm prompt_processor) (llm_name llm_model);
               summary_prompt_version =
                 py_or (pp_summary_prompt_version prompt_processor) ''prompt_processor.summary_cn'';
               combine_prompt_version =
                 py_or (pp_combine_prompt_version prompt_processor) ''prompt_processor.combine_cn'';
               prompt_input_dict = planner_input |` set (input_variables prompt_template)
           in
           (case llm_manager (llm_name llm_model) of
              Inl e \<Rightarrow> Some (Inl e, planner_input, s)
            | Inr agent_llm \<Rightarrow>
           (case llm_manager prompt_processor_llm of
              Inl e \<Rightarrow> Some (Inl e, planner_input, s)
            | Inr prompt_llm \<Rightarrow>
           (case format prompt_template prompt_input_dict of
              Inl e \<Rightarrow> Some (Inl e, planner_input, s)
            | Inr prompt \<Rightarrow>
           (case get_num_tokens agent_llm (PyStr prompt) s of
              (Inl e, s1) \<Rightarrow> Some (Inl e, planner_input, s1)
            | (Inr prompt_tokens, s1) \<Rightarrow>
           (let remaining_tokens = max_context_length agent_llm - max_tokens agent_llm in
            if prompt_tokens \<le> remaining_tokens then Some (Inr (), planner_input, s1)
            else
              (case from_value prompt_processor_type of
                 Inl e \<Rightarrow> Some (Inl e, planner_input, s1)
               | Inr process_prompt_type_enum \<Rightarrow>
              (let content = (case planner_input ''background'' of None \<Rightarrow> PyNone | Some v \<Rightarrow> v)
               in
               (case process_prompt_type_enum of
                  TRUNCATE \<Rightarrow>
                    store_background planner_input
                      (truncate_content fl content remaining_tokens agent_llm s1)
                | STUFF \<Rightarrow>
                    store_background planner_input
                      (summarize_by_stuff prompt_manager [content] prompt_llm
                         summary_prompt_version s1)
                | MAP_REDUCE \<Rightarrow>
                    store_background planner_input
                      (summarize_by_map_reduce fl prompt_manager [content] prompt_llm agent_llm
                         summary_prompt_version combine_prompt_version s1)))))))))))"

subsection \<open>Stub collaborators\<close>

text \<open>
  The collaborators of the concrete evaluations below. The state of \<open>stub_llm\<close>
  counts the calls of its estimator; \<open>fails n\<close> is the message of the exception the
  estimator raises on call number \<open>n\<close> (counted from 0), if it raises there, and
  \<open>tokens\<close> is what it answers otherwise. \<open>count_chars\<close> is the estimator of one token
  per character.
\<close>

definition count_chars :: "pyval \<Rightarrow> int" where
  "count_chars v = (case v of PyNone \<Rightarrow> 0 | PyStr t \<Rightarrow> int (length t))"

definition stub_llm ::
  "(nat \<Rightarrow> string option) \<Rightarrow> (pyval \<Rightarrow> int) \<Rightarrow> int \<Rightarrow> int \<Rightarrow> (nat, unit) llm" where
  "stub_llm fails tokens context_length completion_tokens =
     \<lparr>get_num_tokens = (\<lambda>v n. case fails n of
                                 Some m \<Rightarrow> (Inl (Exn OtherError m), Suc n)
                               | None \<Rightarrow> (Inr (tokens v), Suc n)),
      max_context_length = context_length,
      max_tokens = completion_tokens,
      stuff_chain = (\<lambda>p docs n. (Inr ''stuff summary'', n)),
      map_reduce_chain = (\<lambda>p q docs n. (Inr ''map-reduce summary'', n))\<rparr>"

text \<open>A template with the one variable \<open>background\<close>, which it prints after a header.\<close>

definition stub_template :: prompt_template where
  "stub_template =
     \<lparr>input_variables = [''background''],
      format = (\<lambda>d. case d ''background'' of
                        Some (PyStr b) \<Rightarrow> Inr (''Background: '' @ b)
                      | Some PyNone \<Rightarrow> Inr ''Background: None''
                      | None \<Rightarrow> Inl (Exn OtherError ''missing variable background''))\<rparr>"

definition stub_profile :: "string option \<Rightarrow> profile" where
  "stub_profile ty =
     \<lparr>profile_llm_model = Some \<lparr>llm_name = Some ''agent'',
         llm_prompt_processor = Some (empty_conf\<lparr>pp_type := ty\<rparr>)\<rparr>\<rparr>"

text \<open>
  A model registry that knows the one model \<open>agent\<close>, and a prompt registry that
  knows every version.
\<close>

definition stub_llm_manager :: "('s, 'p) llm \<Rightarrow> string option \<Rightarrow> exn + ('s, 'p) llm" where
  "stub_llm_manager m model_name =
     (if model_name = Some ''agent'' then Inr m else Inl (Exn OtherError ''llm not found''))"

definition stub_prompt_manager :: "string \<Rightarrow> exn + unit" where
  "stub_prompt_manager version = Inr ()"

section \<open>Properties\<close>

subsection \<open>Slices and the loop of the chunker\<close>

text \<open>
  With indices inside the text, a slice is \<open>take\<close> after \<open>drop\<close>.
\<close>

lemma slice_nonneg:
  "0 \<le> i \<Longrightarrow> i \<le> j \<Longrightarrow> slice t i j = take (nat (j - i)) (drop (nat i) t)"
  by (auto simp: slice_def clamp_index_def Let_def min_def nat_diff_distrib')

lemma slice_from_nonneg: "0 \<le> i \<Longrightarrow> slice_from t i = drop (nat i) t"
  by (auto simp: slice_from_def clamp_index_def min_def)

lemma slice_zero_prefix: "prefix (slice t 0 j) t"
  by (simp add: slice_def clamp_index_def take_is_prefix)

lemma slice_from_zero: "slice_from t 0 = t"
  by (simp add: slice_from_def clamp_index_def)

text \<open>
  The loop stops as soon as the cursor plus the overlap reaches the end of the text. When
  the chunk is not longer than the overlap, the cursor does not advance and the loop
  condition stays true: no result is ever returned.
\<close>

lemma split_loop_stop:
  "\<not> pos + co < int (length t) \<Longrightarrow> split_loop t cs co pos acc = Some acc"
  by (subst split_loop.simps) simp

lemma split_loop_no_return:
  assumes "split_loop t cs co pos acc = Some y"
  shows "\<not> (cs \<le> co \<and> pos + co < int (length t))"
proof (rule split_loop.raw_induct[where P = "\<lambda>t cs co pos acc y. \<not> (cs \<le> co \<and> pos + co < int (length t))", OF _ assms])
  fix f :: "string \<Rightarrow> int \<Rightarrow> int \<Rightarrow> int \<Rightarrow> string list \<Rightarrow> string list option"
    and t cs co pos acc y
  assume IH: "\<And>t cs co pos acc y. f t cs co pos acc = Some y \<Longrightarrow> \<not> (cs \<le> co \<and> pos + co < int (length t))"
    and step: "(if pos + co < int (length t) then
        (let chunk = (if pos + cs \<ge> int (length t) then slice_from t pos else slice t pos (pos + cs))
         in f t cs co (pos + (cs - co)) (acc @ [chunk]))
      else Some acc) = Some y"
  show "\<not> (cs \<le> co \<and> pos + co < int (length t))"
  proof
    assume a: "cs \<le> co \<and> pos + co < int (length t)"
    with step obtain c where "f t cs co (pos + (cs - co)) (acc @ [c]) = Some y"
      by (auto simp: Let_def)
    from IH[OF this] a show False by auto
  qed
qed

lemma split_loop_diverges:
  "cs \<le> co \<Longrightarrow> pos + co < int (length t) \<Longrightarrow> split_loop t cs co pos acc = None"
  using split_loop_no_return[of t cs co pos acc] by (cases "split_loop t cs co pos acc") auto

text \<open>
  When the chunk is longer than the overlap, the loop returns. Chunk number \<open>k\<close> that
  it appends is the text from \<open>pos + k * (cs - co)\<close>, at most \<open>cs\<close> characters long,
  and every position from the cursor to the end of the text lies in one of the chunks.
  The proof is by induction on the distance of the cursor to the end of the text.
\<close>

lemma split_loop_spec:
  assumes "co < cs" "0 \<le> co"
  shows "0 \<le> pos \<Longrightarrow> \<exists>chunks. split_loop t cs co pos acc = Some (acc @ chunks) \<and>
           (\<forall>k < length chunks. chunks ! k = take (nat cs) (drop (nat (pos + int k * (cs - co))) t)) \<and>
           (pos + co < int (length t) \<longrightarrow> (\<forall>i. pos \<le> i \<and> i < int (length t) \<longrightarrow>
               (\<exists>k < length chunks. pos + int k * (cs - co) \<le> i \<and> i < pos + int k * (cs - co) + int (length (chunks ! k)))))"
proof (induction "nat (int (length t) - pos)" arbitrary: pos acc rule: less_induct)
  case less
  show ?case
  proof (cases "pos + co < int (length t)")
    case False
    then have "split_loop t cs co pos acc = Some (acc @ [])"
      by (simp add: split_loop_stop)
    then show ?thesis using False by (intro exI[of _ "[]"]) simp
  next
    case True
    define c where "c = take (nat cs) (drop (nat pos) t)"
    define pos' where "pos' = pos + (cs - co)"
    have chunk: "(if pos + cs \<ge> int (length t) then slice_from t pos
                  else slice t pos (pos + cs)) = c"
      using less.prems assms by (auto simp: slice_nonneg slice_from_nonneg c_def)
    have step: "split_loop t cs co pos acc = split_loop t cs co pos' (acc @ [c])"
      by (subst split_loop.simps) (simp add: True chunk pos'_def Let_def)
    have "nat (int (length t) - pos') < nat (int (length t) - pos)" "0 \<le> pos'"
      using True assms less.prems by (auto simp: pos'_def)
    from less.hyps[OF this, of "acc @ [c]"] obtain rest where
      r1: "split_loop t cs co pos' (acc @ [c]) = Some ((acc @ [c]) @ rest)" and
      r2: "\<forall>k < length rest. rest ! k = take (nat cs) (drop (nat (pos' + int k * (cs - co))) t)" and
      r3: "pos' + co < int (length t) \<longrightarrow> (\<forall>i. pos' \<le> i \<and> i < int (length t) \<longrightarrow>
               (\<exists>k < length rest. pos' + int k * (cs - co) \<le> i \<and> i < pos' + int k * (cs - co) + int (length (rest ! k))))"
      by blast
    have a: "split_loop t cs co pos acc = Some (acc @ (c # rest))"
      using step r1 by simp
    have b: "\<forall>k < length (c # rest). (c # rest) ! k = take (nat cs) (drop (nat (pos + int k * (cs - co))) t)"
    proof (intro allI impI)
      fix k assume k: "k < length (c # rest)"
      show "(c # rest) ! k = take (nat cs) (drop (nat (pos + int k * (cs - co))) t)"
      proof (cases k)
        case 0 then show ?thesis by (simp add: c_def)
      next
        case (Suc j)
        with k have "j < length rest" by simp
        with r2 have "rest ! j = take (nat cs) (drop (nat (pos' + int j * (cs - co))) t)" by blast
        moreover have "pos' + int j * (cs - co) = pos + int k * (cs - co)"
          by (simp add: pos'_def Suc algebra_simps)
        ultimately show ?thesis using Suc by simp
      qed
    qed
    have d: "\<forall>i. pos \<le> i \<and> i < int (length t) \<longrightarrow>
               (\<exists>k < length (c # rest). pos + int k * (cs - co) \<le> i \<and> i < pos + int k * (cs - co) + int (length ((c # rest) ! k)))"
    proof (intro allI impI)
      fix i assume i: "pos \<le> i \<and> i < int (length t)"
      show "\<exists>k < length (c # rest). pos + int k * (cs - co) \<le> i \<and> i < pos + int k * (cs - co) + int (length ((c # rest) ! k))"
      proof (cases "i < pos + int (length c)")
        case True
        then show ?thesis using i by (intro exI[of _ 0]) simp
      next
        case False
        have lc: "int (length c) = min cs (int (length t) - pos)"
          using less.prems assms i by (auto simp: c_def min_def)
        with False i have "pos + cs \<le> i" by (auto simp: min_def split: if_splits)
        then have "pos' + co < int (length t)" "pos' \<le> i" using i assms by (auto simp: pos'_def)
        with r3 i obtain j where j: "j < length rest" "pos' + int j * (cs - co) \<le> i"
           "i < pos' + int j * (cs - co) + int (length (rest ! j))" by blast
        have e: "pos' + int j * (cs - co) = pos + int (Suc j) * (cs - co)"
          by (simp add: pos'_def algebra_simps)
        show ?thesis using j unfolding e by (intro exI[of _ "Suc j"]) simp
      qed
    qed
    show ?thesis using a b d by blast
  qed
qed

text \<open>
  Whatever the loop returns starts with what it had collected, followed by the chunk
  at the cursor if the loop condition holds there.
\<close>

lemma split_loop_prefix:
  assumes "split_loop t cs co pos acc = Some y"
  shows "prefix acc y \<and> (pos + co < int (length t) \<longrightarrow>
        prefix (acc @ [if pos + cs \<ge> int (length t) then slice_from t pos else slice t pos (pos + cs)]) y)"
proof (rule split_loop.raw_induct[where P = "\<lambda>t cs co pos acc y. prefix acc y \<and> (pos + co < int (length t) \<longrightarrow>
        prefix (acc @ [if pos + cs \<ge> int (length t) then slice_from t pos else slice t pos (pos + cs)]) y)", OF _ assms])
  fix f :: "string \<Rightarrow> int \<Rightarrow> int \<Rightarrow> int \<Rightarrow> string list \<Rightarrow> string list option"
    and t cs co pos acc y
  assume IH: "\<And>t cs co pos acc y. f t cs co pos acc = Some y \<Longrightarrow> prefix acc y \<and> (pos + co < int (length t) \<longrightarrow>
        prefix (acc @ [if pos + cs \<ge> int (length t) then slice_from t pos else slice t pos (pos + cs)]) y)"
    and step: "(if pos + co < int (length t) then
        (let chunk = (if pos + cs \<ge> int (length t) then slice_from t pos else slice t pos (pos + cs))
         in f t cs co (pos + (cs - co)) (acc @ [chunk]))
      else Some acc) = Some y"
  show "prefix acc y \<and> (pos + co < int (length t) \<longrightarrow>
        prefix (acc @ [if pos + cs \<ge> int (length t) then slice_from t pos else slice t pos (pos + cs)]) y)"
  proof (cases "pos + co < int (length t)")
    case True
    with step have "f t cs co (pos + (cs - co)) (acc @ [if pos + cs \<ge> int (length t) then slice_from t pos else slice t pos (pos + cs)]) = Some y"
      by (simp add: Let_def)
    from IH[OF this] show ?thesis by (auto dest: append_prefixD)
  next
    case False
    with step show ?thesis by simp
  qed
qed

lemma split_loop_head_prefix:
  assumes "split_loop t cs co 0 [] = Some (r # rest)"
  shows "prefix r t"
proof (cases "0 + co < int (length t)")
  case True
  with split_loop_prefix[OF assms] have
    "prefix [if 0 + cs \<ge> int (length t) then slice_from t 0 else slice t 0 (0 + cs)] (r # rest)"
    by simp
  then have "r = (if 0 + cs \<ge> int (length t) then slice_from t 0 else slice t 0 (0 + cs))"
    by simp
  then show ?thesis by (simp add: slice_zero_prefix slice_from_zero)
next
  case False
  then have "split_loop t cs co 0 [] = Some []" by (rule split_loop_stop)
  with assms show ?thesis by simp
qed

subsection \<open>The chunker\<close>

text \<open>
  The character counts under the rounding \<open>exact\<close>.
\<close>

lemma chunk_chars_exact: "chunk_chars exact n x = py_int (real_of_int n * x)"
  by (simp add: chunk_chars_def exact_def)

lemma char_per_token_exact: "char_per_token exact t n = real (length t) / real_of_int n"
  by (simp add: char_per_token_def exact_def)

text \<open>
  The chunker on a text whose character overlap is at least the character chunk size
  and smaller than the text: the call never returns.
\<close>

lemma split_text_on_tokens_diverges:
  assumes "text_token \<noteq> 0"
    and "chunk_chars fl chunk_size (char_per_token fl t text_token)
           \<le> chunk_chars fl chunk_overlap (char_per_token fl t text_token)"
    and "chunk_chars fl chunk_overlap (char_per_token fl t text_token) < int (length t)"
  shows "split_text_on_tokens fl (PyStr t) text_token chunk_size chunk_overlap = None"
  using assms by (simp add: split_text_on_tokens_def Let_def split_loop_diverges)

lemma split_text_on_tokens_head_prefix:
  assumes "split_text_on_tokens fl c tok cs co = Some (Inr (r # rest))"
  shows "\<exists>t. c = PyStr t \<and> prefix r t"
  using assms
  by (cases c) (auto simp: split_text_on_tokens_def Let_def split: if_splits dest: split_loop_head_prefix)

text \<open>
  \<^bold>\<open>C9\<close>. For every text and every chunk parameters, \<open>split_text_on_tokens\<close> with
  an estimated token count of 0 raises \<^verbatim>\<open>ZeroDivisionError\<close> (``division by zero'');
  in particular it does not return an empty list of chunks. The theorem holds for
  every rounding \<open>fl\<close>: the division fails before anything is rounded.
\<close>

theorem C9_zero_token_estimate_raises:
  "split_text_on_tokens fl (PyStr t) 0 chunk_size chunk_overlap =
     Some (Inl (Exn ZeroDivisionError ''division by zero''))"
  by (simp add: split_text_on_tokens_def)

text \<open>
  C9 on the text \<open>abc\<close> with the default chunk parameters.
\<close>

theorem C9_witness:
  "split_text_on_tokens exact (PyStr ''abc'') 0 800 100 =
     Some (Inl (Exn ZeroDivisionError ''division by zero''))"
  by (rule C9_zero_token_estimate_raises)

text \<open>
  \<^bold>\<open>C3\<close>. A text of 4000 characters with an estimate of 1000 tokens, chunk size 800
  and overlap 100: \<open>chunk_char_size\<close> is 3200, \<open>chunk_char_overlap\<close> is 400, and the
  chunker returns exactly two chunks, the characters \<open>[0, 3200)\<close> and the characters
  \<open>[2800, 4000)\<close>, the second of length 1200. The only assumption on the floating point
  arithmetic is that it represents the integers up to \<open>2 ^ 53\<close> exactly, as IEEE
  doubles do: the quotient 4 and the products 3200 and 400 are such integers.
\<close>

theorem C3_scenario:
  assumes len: "length t = 4000"
    and fl: "\<And>n::int. \<bar>n\<bar> \<le> 2 ^ 53 \<Longrightarrow> fl (real_of_int n) = real_of_int n"
  shows "chunk_chars fl 800 (char_per_token fl t 1000) = 3200
       \<and> chunk_chars fl 100 (char_per_token fl t 1000) = 400
       \<and> split_text_on_tokens fl (PyStr t) 1000 800 100 = Some (Inr [take 3200 t, drop 2800 t])
       \<and> length (take 3200 t) = 3200 \<and> length (drop 2800 t) = 1200"
proof -
  have f: "fl 4 = 4" "fl 800 = 800" "fl 100 = 100" "fl 3200 = 3200" "fl 400 = 400"
    using fl[of 4] fl[of 800] fl[of 100] fl[of 3200] fl[of 400] by simp_all
  have cpt: "char_per_token fl t 1000 = 4"
    by (simp add: char_per_token_def len f)
  have cs: "chunk_chars fl 800 4 = 3200" and co: "chunk_chars fl 100 4 = 400"
    by (simp_all add: chunk_chars_def f py_int_def)
  have s1: "slice t 0 3200 = take 3200 t"
    by (simp add: slice_nonneg)
  have s2: "slice_from t 2800 = drop 2800 t"
    by (simp add: slice_from_nonneg)
  have "split_loop t 3200 400 0 [] = split_loop t 3200 400 2800 [take 3200 t]"
    by (subst split_loop.simps) (simp add: len s1)
  also have "\<dots> = split_loop t 3200 400 5600 [take 3200 t, drop 2800 t]"
    by (subst split_loop.simps) (simp add: len s2)
  also have "\<dots> = Some [take 3200 t, drop 2800 t]"
    by (simp add: split_loop_stop len)
  finally have "split_text_on_tokens fl (PyStr t) 1000 800 100 = Some (Inr [take 3200 t, drop 2800 t])"
    by (simp add: split_text_on_tokens_def cpt cs co)
  then show ?thesis by (simp add: cpt cs co len)
qed

text \<open>
  C3 on the text of 4000 letters \<open>a\<close>, with exact arithmetic.
\<close>

theorem C3_witness:
  "chunk_chars exact 800 (char_per_token exact (replicate 4000 CHR ''a'') 1000) = 3200
   \<and> chunk_chars exact 100 (char_per_token exact (replicate 4000 CHR ''a'') 1000) = 400
   \<and> split_text_on_tokens exact (PyStr (replicate 4000 CHR ''a'')) 1000 800 100
       = Some (Inr [take 3200 (replicate 4000 CHR ''a''), drop 2800 (replicate 4000 CHR ''a'')])
   \<and> length (take 3200 (replicate 4000 CHR ''a'')) = 3200
   \<and> length (drop 2800 (replicate 4000 CHR ''a'')) = 1200"
  by (rule C3_scenario) (simp_all add: exact_def)

text \<open>
  \<^bold>\<open>C4\<close>. The specification states that the chunker fails fast with a configuration error when
  \<open>chunk_char_size \<le> chunk_char_overlap < len(text)\<close>. The code has no such guard.
  On the text \<open>abcdefghij\<close> with an estimate of 10 tokens (one character per token),
  chunk size 2 and overlap 2, the cursor stays at 0 and the call never returns: its
  value is \<open>None\<close>, not an exception.
\<close>

theorem C4_nonadvancing_cursor_never_returns:
  "split_text_on_tokens exact (PyStr ''abcdefghij'') 10 2 2 = None"
  by (rule split_text_on_tokens_diverges) (simp_all add: chunk_chars_exact char_per_token_exact py_int_def)

text \<open>
  The same in general: for every text, every non-zero estimate and every chunk
  parameters with \<open>chunk_char_size \<le> chunk_char_overlap < len(text)\<close>, the call
  of the chunker never returns. Its witness is a text on which the cursor moves backwards
  (chunk size 1, overlap 3).
\<close>

theorem chunker_never_returns_without_advance:
  assumes "text_token \<noteq> 0"
    and "chunk_chars fl chunk_size (char_per_token fl t text_token)
           \<le> chunk_chars fl chunk_overlap (char_per_token fl t text_token)"
    and "chunk_chars fl chunk_overlap (char_per_token fl t text_token) < int (length t)"
  shows "split_text_on_tokens fl (PyStr t) text_token chunk_size chunk_overlap = None"
  using assms by (rule split_text_on_tokens_diverges)

theorem chunker_never_returns_without_advance_witness:
  "split_text_on_tokens exact (PyStr ''abcdefghij'') 10 1 3 = None"
  by (rule chunker_never_returns_without_advance)
     (simp_all add: chunk_chars_exact char_per_token_exact py_int_def)

text \<open>
  \<^bold>\<open>C2\<close>. The specification states that the chunks cover the text whenever the text is not empty,
  the estimate is positive and \<open>chunk_size > chunk_overlap > 0\<close>. It fails on a text
  that is shorter than the overlap counted in characters: for \<open>abcd\<close> with an estimate
  of 1 token (4 characters per token) and the default parameters 800 and 100, the
  overlap is 400 characters, the loop condition \<open>0 + 400 < 4\<close> is false at once, and the
  chunker returns no chunk at all.
\<close>

theorem C2_counterexample:
  "split_text_on_tokens exact (PyStr ''abcd'') 1 800 100 = Some (Inr [])"
  by (simp add: split_text_on_tokens_def chunk_chars_exact char_per_token_exact py_int_def
      split_loop_stop)

text \<open>
  \<^bold>\<open>C2\<close>, as amended. For every text and positive estimate such that the character overlap
  the chunker computes is not negative, smaller than the character chunk size it
  computes, and smaller than the length of the text: the chunker returns; chunk number
  \<open>k\<close> is the text from position \<open>k * (chunk_char_size - chunk_char_overlap)\<close>, cut
  after \<open>chunk_char_size\<close> characters; and every position of the text lies in the span
  of one of the chunks. The two bounds on the overlap are stated on the values in
  characters, after rounding and truncation, whatever the rounding \<open>fl\<close>.
\<close>

theorem C2_chunk_coverage:
  assumes tok: "0 < text_token"
    and size: "chunk_char_size = chunk_chars fl chunk_size (char_per_token fl t text_token)"
    and overlap: "chunk_char_overlap = chunk_chars fl chunk_overlap (char_per_token fl t text_token)"
    and adv: "0 \<le> chunk_char_overlap" "chunk_char_overlap < chunk_char_size"
    and short: "chunk_char_overlap < int (length t)"
  shows "\<exists>chunks. split_text_on_tokens fl (PyStr t) text_token chunk_size chunk_overlap
                    = Some (Inr chunks)
           \<and> (\<forall>k < length chunks.
                 chunks ! k = take (nat chunk_char_size)
                                (drop (k * nat (chunk_char_size - chunk_char_overlap)) t))
           \<and> (\<forall>i < length t. \<exists>k < length chunks.
                 k * nat (chunk_char_size - chunk_char_overlap) \<le> i
                 \<and> i < k * nat (chunk_char_size - chunk_char_overlap) + length (chunks ! k))"
proof -
  let ?step = "chunk_char_size - chunk_char_overlap"
  from split_loop_spec[OF adv(2) adv(1), of 0 t "[]"] obtain chunks where
    r: "split_loop t chunk_char_size chunk_char_overlap 0 [] = Some chunks" and
    c: "\<forall>k < length chunks. chunks ! k = take (nat chunk_char_size) (drop (nat (int k * ?step)) t)" and
    v: "\<forall>i. 0 \<le> i \<and> i < int (length t) \<longrightarrow>
          (\<exists>k < length chunks. int k * ?step \<le> i \<and> i < int k * ?step + int (length (chunks ! k)))"
    using short by auto
  have n: "nat (int k * ?step) = k * nat ?step" for k
    using adv by (simp add: nat_mult_distrib)
  have "split_text_on_tokens fl (PyStr t) text_token chunk_size chunk_overlap = Some (Inr chunks)"
    using tok r by (simp add: split_text_on_tokens_def Let_def size[symmetric] overlap[symmetric])
  moreover have "\<forall>k < length chunks. chunks ! k = take (nat chunk_char_size) (drop (k * nat ?step) t)"
    using c by (simp add: n)
  moreover have "\<forall>i < length t. \<exists>k < length chunks.
                 k * nat ?step \<le> i \<and> i < k * nat ?step + length (chunks ! k)"
  proof (intro allI impI)
    fix i assume "i < length t"
    then have "0 \<le> int i \<and> int i < int (length t)" by simp
    with v[rule_format, of "int i"] obtain k where k: "k < length chunks" "int k * ?step \<le> int i"
      "int i < int k * ?step + int (length (chunks ! k))" by blast
    have "int (k * nat ?step) = int k * ?step" using adv by simp
    with k have "k * nat ?step \<le> i \<and> i < k * nat ?step + length (chunks ! k)"
      by linarith
    with k(1) show "\<exists>k < length chunks. k * nat ?step \<le> i \<and> i < k * nat ?step + length (chunks ! k)"
      by blast
  qed
  ultimately show ?thesis by blast
qed

text \<open>
  C2, as amended, on the text \<open>abcdefghij\<close> with an estimate of 10 tokens, chunk size 4 and
  overlap 1 (the chunks are \<open>abcd\<close>, \<open>defg\<close> and \<open>ghij\<close>).
\<close>

theorem C2_witness:
  "\<exists>chunks. split_text_on_tokens exact (PyStr ''abcdefghij'') 10 4 1 = Some (Inr chunks)
           \<and> (\<forall>k < length chunks. chunks ! k = take (nat 4) (drop (k * nat (4 - 1)) ''abcdefghij''))
           \<and> (\<forall>i < length ''abcdefghij''. \<exists>k < length chunks.
                 k * nat (4 - 1) \<le> i \<and> i < k * nat (4 - 1) + length (chunks ! k))"
  by (rule C2_chunk_coverage[where chunk_char_size = 4 and chunk_char_overlap = 1])
     (simp_all add: chunk_chars_exact char_per_token_exact py_int_def)

subsection \<open>The splitter and truncation\<close>

text \<open>
  The \<^verbatim>\<open>for\<close> loop on a single text, and what \<open>split_texts\<close> returns when it
  returns a list: the list of one run of the loop, the first or the retry.
\<close>

lemma split_texts_loop_single:
  "split_texts_loop fl agent_llm cs co [c] [] s =
     (case get_num_tokens agent_llm c s of
        (Inl e, s') \<Rightarrow> Some (Inl e, s')
      | (Inr tok, s') \<Rightarrow>
          (case split_text_on_tokens fl c tok cs co of
             None \<Rightarrow> None
           | Some (Inl e) \<Rightarrow> Some (Inl e, s')
           | Some (Inr chunks) \<Rightarrow> Some (Inr chunks, s')))"
  by (simp split: prod.splits sum.splits option.splits)

lemma split_texts_loop_single_head:
  assumes "split_texts_loop fl agent_llm cs co [c] [] s = Some (Inr (r # rest), s')"
  shows "\<exists>t. c = PyStr t \<and> prefix r t"
  using assms unfolding split_texts_loop_single
  by (auto split: prod.splits sum.splits option.splits dest: split_text_on_tokens_head_prefix)

lemma split_texts_returns:
  assumes "split_texts fl texts agent_llm cs co retry s = Some (Inr res, s')"
  shows "\<exists>cs' co' s0. split_texts_loop fl agent_llm cs' co' texts [] s0 = Some (Inr res, s')"
proof (cases "split_texts_loop fl agent_llm cs co texts [] s")
  case None
  with assms show ?thesis by (simp add: split_texts.simps)
next
  case (Some a)
  obtain x s1 where a: "a = (x, s1)" by (cases a)
  show ?thesis
  proof (cases x)
    case (Inr r)
    with Some a assms show ?thesis by (auto simp: split_texts.simps)
  next
    case (Inl e)
    with Some a assms have "retry" and
      r: "split_texts fl texts agent_llm 800 100 False s1 = Some (Inr res, s')"
      by (auto simp: split_texts.simps[of fl texts agent_llm cs co retry s] split: if_splits)
    from r show ?thesis
      by (subst (asm) split_texts.simps) (auto split: option.splits prod.splits sum.splits)
  qed
qed

text \<open>
  The fields of the stub model, and the equations that evaluate the functions on
  concrete inputs.
\<close>

lemma stub_llm_simps:
  "get_num_tokens (stub_llm fails tokens cl ct) v n =
     (case fails n of Some m \<Rightarrow> (Inl (Exn OtherError m), Suc n) | None \<Rightarrow> (Inr (tokens v), Suc n))"
  "max_context_length (stub_llm fails tokens cl ct) = cl"
  "max_tokens (stub_llm fails tokens cl ct) = ct"
  "stuff_chain (stub_llm fails tokens cl ct) p docs n = (Inr ''stuff summary'', n)"
  "map_reduce_chain (stub_llm fails tokens cl ct) p q chunks n = (Inr ''map-reduce summary'', n)"
  by (simp_all add: stub_llm_def)

lemmas eval_simps =
  split_text_on_tokens_def chunk_chars_exact char_per_token_exact py_int_def
  split_loop.simps slice_def slice_from_def clamp_index_def
  split_texts.simps truncate_content_def stub_llm_simps count_chars_def

text \<open>
  \<^bold>\<open>C5\<close>. The specification states that after a failed first attempt the retry returns what a
  successful first attempt would have returned. The retry runs with the default chunk
  parameters, not with the caller's. With chunk size 4 and overlap 1 on the text
  \<open>abcdefghij\<close> (one token per character), an estimator that raises on its first call
  only makes \<open>split_texts\<close> return no chunk (the retry has overlap 100, more than the
  text), while with an estimator that never raises the same call returns the three
  chunks \<open>abcd\<close>, \<open>defg\<close> and \<open>ghij\<close>.
\<close>

theorem C5_counterexample:
  "split_texts exact [PyStr ''abcdefghij'']
      (stub_llm (\<lambda>n. if n = 0 then Some ''timeout'' else None) count_chars 4096 1024)
      4 1 True 0
     = Some (Inr [], Suc (Suc 0))
   \<and> split_texts exact [PyStr ''abcdefghij''] (stub_llm (\<lambda>n. None) count_chars 4096 1024)
      4 1 True 0
     = Some (Inr [''abcd'', ''defg'', ''ghij''], Suc 0)"
  by (simp add: eval_simps)

text \<open>
  \<^bold>\<open>C5\<close>, as amended. When the first run of the loop raises \<open>e\<close> and leaves the estimator
  in state \<open>s1\<close>:
  \<^item> with \<open>retry\<close>, the call is the call with \<^verbatim>\<open>retry=False\<close>, chunk size 800 and
    overlap 100 from \<open>s1\<close>: one more run of the loop and no third one, whose list is
    returned and whose exception is wrapped in a \<^verbatim>\<open>ValueError\<close>;
  \<^item> when that second run returns a list, the call returns it, and so does the call
    with the default chunk parameters that starts in \<open>s1\<close> and succeeds at its first
    attempt;
  \<^item> without \<open>retry\<close>, the call raises the \<^verbatim>\<open>ValueError\<close> that wraps \<open>e\<close>.
\<close>

theorem C5_retry_once_with_default_parameters:
  assumes first: "split_texts_loop fl agent_llm chunk_size chunk_overlap texts [] s = Some (Inl e, s1)"
  shows "split_texts fl texts agent_llm chunk_size chunk_overlap True s
           = split_texts fl texts agent_llm 800 100 False s1
       \<and> split_texts fl texts agent_llm chunk_size chunk_overlap True s
           = (case split_texts_loop fl agent_llm 800 100 texts [] s1 of
                None \<Rightarrow> None
              | Some (Inr res, s2) \<Rightarrow> Some (Inr res, s2)
              | Some (Inl e2, s2) \<Rightarrow>
                  Some (Inl (Exn ValueError (''split text failed, exception='' @ str e2)), s2))
       \<and> (\<forall>res s2. split_texts_loop fl agent_llm 800 100 texts [] s1 = Some (Inr res, s2) \<longrightarrow>
             split_texts fl texts agent_llm chunk_size chunk_overlap True s = Some (Inr res, s2)
             \<and> split_texts fl texts agent_llm 800 100 True s1 = Some (Inr res, s2))
       \<and> split_texts fl texts agent_llm chunk_size chunk_overlap False s
           = Some (Inl (Exn ValueError (''split text failed, exception='' @ str e)), s1)"
proof -
  have a: "split_texts fl texts agent_llm chunk_size chunk_overlap True s
           = split_texts fl texts agent_llm 800 100 False s1"
    by (subst split_texts.simps) (simp add: first)
  have b: "split_texts fl texts agent_llm 800 100 False s1
           = (case split_texts_loop fl agent_llm 800 100 texts [] s1 of
                None \<Rightarrow> None
              | Some (Inr res, s2) \<Rightarrow> Some (Inr res, s2)
              | Some (Inl e2, s2) \<Rightarrow>
                  Some (Inl (Exn ValueError (''split text failed, exception='' @ str e2)), s2))"
    by (subst split_texts.simps) (simp split: option.splits prod.splits sum.splits)
  have c: "split_texts fl texts agent_llm 800 100 True s1 = Some (Inr res, s2)"
    if "split_texts_loop fl agent_llm 800 100 texts [] s1 = Some (Inr res, s2)" for res s2
    by (subst split_texts.simps) (simp add: that)
  have d: "split_texts fl texts agent_llm chunk_size chunk_overlap False s
           = Some (Inl (Exn ValueError (''split text failed, exception='' @ str e)), s1)"
    by (subst split_texts.simps) (simp add: first)
  show ?thesis using a b c d by simp
qed

text \<open>
  C5, as amended, on a text of 200 letters \<open>a\<close> with the default chunk parameters and an
  estimator that raises on its first call only.
\<close>

theorem C5_witness:
  "split_texts exact [PyStr (replicate 200 CHR ''a'')]
      (stub_llm (\<lambda>n. if n = 0 then Some ''timeout'' else None) count_chars 4096 1024)
      800 100 True 0
     = Some (Inr [replicate 200 CHR ''a''], Suc (Suc 0))
   \<and> split_texts exact [PyStr (replicate 200 CHR ''a'')]
      (stub_llm (\<lambda>n. if n = 0 then Some ''timeout'' else None) count_chars 4096 1024)
      800 100 True (Suc 0)
     = Some (Inr [replicate 200 CHR ''a''], Suc (Suc 0))
   \<and> split_texts exact [PyStr (replicate 200 CHR ''a'')]
        (stub_llm (\<lambda>n. if n = 0 then Some ''timeout'' else None) count_chars 4096 1024)
        800 100 False 0
     = Some (Inl (Exn ValueError ''split text failed, exception=timeout''), Suc 0)"
proof -
  let ?llm = "stub_llm (\<lambda>n. if n = 0 then Some ''timeout'' else None) count_chars 4096 1024 :: (nat, unit) llm"
  have first: "split_texts_loop exact ?llm 800 100 [PyStr (replicate 200 CHR ''a'')] [] 0
         = Some (Inl (Exn OtherError ''timeout''), Suc 0)"
    by (simp add: stub_llm_simps)
  have second: "split_texts_loop exact ?llm 800 100 [PyStr (replicate 200 CHR ''a'')] [] (Suc 0)
         = Some (Inr [replicate 200 CHR ''a''], Suc (Suc 0))"
    by (simp add: eval_simps)
  note retry = C5_retry_once_with_default_parameters[OF first]
  from retry have
    a: "\<forall>res s2. split_texts_loop exact ?llm 800 100 [PyStr (replicate 200 CHR ''a'')] [] (Suc 0)
            = Some (Inr res, s2) \<longrightarrow>
          split_texts exact [PyStr (replicate 200 CHR ''a'')] ?llm 800 100 True 0 = Some (Inr res, s2)
          \<and> split_texts exact [PyStr (replicate 200 CHR ''a'')] ?llm 800 100 True (Suc 0)
              = Some (Inr res, s2)"
    and b: "split_texts exact [PyStr (replicate 200 CHR ''a'')] ?llm 800 100 False 0
          = Some (Inl (Exn ValueError (''split text failed, exception='' @ str (Exn OtherError ''timeout''))), Suc 0)"
    by blast+
  from a[rule_format, OF second] b show ?thesis by simp
qed

text \<open>
  \<^bold>\<open>C6\<close>. The specification states that the message of the wrapped error carries the cause of the
  first attempt. The \<^verbatim>\<open>ValueError\<close> is raised by the inner call, from the exception
  that the retry caught. With an estimator that raises \<open>first\<close> on its first call and
  \<open>second\<close> on its second, the first attempt fails with \<open>first\<close> and the message is
  \<open>split text failed, exception=second\<close>.
\<close>

theorem C6_counterexample:
  "split_texts_loop exact
      (stub_llm (\<lambda>n. if n = 0 then Some ''first'' else if n = 1 then Some ''second'' else None)
         count_chars 4096 1024)
      800 100 [PyStr ''abc''] [] 0
     = Some (Inl (Exn OtherError ''first''), Suc 0)
   \<and> split_texts exact [PyStr ''abc'']
      (stub_llm (\<lambda>n. if n = 0 then Some ''first'' else if n = 1 then Some ''second'' else None)
         count_chars 4096 1024)
      800 100 True 0
     = Some (Inl (Exn ValueError ''split text failed, exception=second''), Suc (Suc 0))"
  by (simp add: eval_simps)

text \<open>
  \<^bold>\<open>C6\<close>, as amended. When the first attempt raises \<open>e1\<close> and the retry (with the default
  chunk parameters, from the state the first attempt left) raises \<open>e2\<close>, the call raises
  a \<^verbatim>\<open>ValueError\<close> whose message is \<open>split text failed, exception=\<close> followed by
  the message of \<open>e2\<close>, the cause of the retry's failure. The error is raised, not
  swallowed.
\<close>

theorem C6_wrapped_error_carries_retry_cause:
  assumes first: "split_texts_loop fl agent_llm chunk_size chunk_overlap texts [] s = Some (Inl e1, s1)"
    and second: "split_texts_loop fl agent_llm 800 100 texts [] s1 = Some (Inl e2, s2)"
  shows "split_texts fl texts agent_llm chunk_size chunk_overlap True s
           = Some (Inl (Exn ValueError (''split text failed, exception='' @ str e2)), s2)"
proof -
  have "split_texts fl texts agent_llm chunk_size chunk_overlap True s
           = split_texts fl texts agent_llm 800 100 False s1"
    by (subst split_texts.simps) (simp add: first)
  also have "\<dots> = Some (Inl (Exn ValueError (''split text failed, exception='' @ str e2)), s2)"
    by (subst split_texts.simps) (simp add: second)
  finally show ?thesis .
qed

text \<open>
  C6, as amended, on the texts \<open>ab\<close> and the empty text, with an estimator that never
  raises: both attempts fail in the chunker, with a division by zero on the empty text.
\<close>

theorem C6_witness:
  "split_texts exact [PyStr ''ab'', PyStr ''''] (stub_llm (\<lambda>n. None) count_chars 4096 1024)
      800 100 True 0
     = Some (Inl (Exn ValueError ''split text failed, exception=division by zero''),
             Suc (Suc (Suc (Suc 0))))"
proof -
  have first: "split_texts_loop exact (stub_llm (\<lambda>n. None) count_chars 4096 1024) 800 100
      [PyStr ''ab'', PyStr ''''] [] 0
        = Some (Inl (Exn ZeroDivisionError ''division by zero''), Suc (Suc 0))"
    by (simp add: eval_simps)
  have second: "split_texts_loop exact (stub_llm (\<lambda>n. None) count_chars 4096 1024) 800 100
      [PyStr ''ab'', PyStr ''''] [] (Suc (Suc 0))
        = Some (Inl (Exn ZeroDivisionError ''division by zero''), Suc (Suc (Suc (Suc 0))))"
    by (simp add: eval_simps)
  from C6_wrapped_error_carries_retry_cause[OF first second] show ?thesis by simp
qed

text \<open>
  \<^bold>\<open>C10\<close>. Whenever \<open>truncate_content\<close> returns normally, the content is a string and
  the string returned is a prefix of it, whether the chunk comes from the first attempt
  or from the retry, and for every rounding \<open>fl\<close>.
\<close>

theorem C10_truncation_keeps_prefix:
  assumes "truncate_content fl content token_length agent_llm s = Some (Inr r, s')"
  shows "\<exists>t. content = PyStr t \<and> prefix r t"
proof -
  from assms obtain rest where
    "split_texts fl [content] agent_llm token_length 100 True s = Some (Inr (r # rest), s')"
    by (auto simp: truncate_content_def split: option.splits prod.splits sum.splits list.splits)
  from split_texts_returns[OF this] obtain cs' co' s0 where
    "split_texts_loop fl agent_llm cs' co' [content] [] s0 = Some (Inr (r # rest), s')" by blast
  then show ?thesis by (rule split_texts_loop_single_head)
qed

text \<open>
  C10 on a text of 200 letters \<open>a\<close> truncated to 150 tokens (one token per character).
\<close>

theorem C10_witness:
  "truncate_content exact (PyStr (replicate 200 CHR ''a'')) 150
      (stub_llm (\<lambda>n. None) count_chars 4096 1024) 0 = Some (Inr (replicate 150 CHR ''a''), Suc 0)
   \<and> (\<exists>t. PyStr (replicate 200 CHR ''a'') = PyStr t \<and> prefix (replicate 150 CHR ''a'') t)"
proof -
  have e: "truncate_content exact (PyStr (replicate 200 CHR ''a'')) 150
      (stub_llm (\<lambda>n. None) count_chars 4096 1024) 0 = Some (Inr (replicate 150 CHR ''a''), Suc 0)"
    by (simp add: eval_simps)
  from C10_truncation_keeps_prefix[OF e] e show ?thesis by blast
qed

subsection \<open>The controller\<close>

text \<open>
  The assignment writes no key but \<open>background\<close>.
\<close>

lemma store_background_frame:
  assumes "store_background m r = Some (x, m', s')" "k \<noteq> ''background''"
  shows "m' k = m k"
  using assms by (auto simp: store_background_def split: option.splits prod.splits sum.splits)

text \<open>
  The controller past its budget check: when the prompt has more tokens than remain,
  the call is the branch that the configured type selects.
\<close>

lemma process_llm_token_over_budget:
  assumes model: "profile_llm_model profile = Some llm_model"
    and conf: "conf = (case llm_prompt_processor llm_model of None \<Rightarrow> empty_conf | Some d \<Rightarrow> d)"
    and agent: "llm_manager (llm_name llm_model) = Inr agent_llm"
    and compress: "llm_manager (py_or_opt (pp_llm conf) (llm_name llm_model)) = Inr prompt_llm"
    and fmt: "format prompt_template (planner_input |` set (input_variables prompt_template))
                = Inr prompt"
    and est: "get_num_tokens agent_llm (PyStr prompt) s = (Inr prompt_tokens, s1)"
    and rem: "remaining_tokens = max_context_length agent_llm - max_tokens agent_llm"
    and over: "remaining_tokens < prompt_tokens"
    and content: "content = (case planner_input ''background'' of None \<Rightarrow> PyNone | Some v \<Rightarrow> v)"
  shows "process_llm_token fl llm_manager prompt_manager prompt_template profile planner_input s
      = (case from_value (py_or (pp_type conf) (enum_value TRUNCATE)) of
           Inl e \<Rightarrow> Some (Inl e, planner_input, s1)
         | Inr TRUNCATE \<Rightarrow>
             store_background planner_input
               (truncate_content fl content remaining_tokens agent_llm s1)
         | Inr STUFF \<Rightarrow>
             store_background planner_input
               (summarize_by_stuff prompt_manager [content] prompt_llm
                  (py_or (pp_summary_prompt_version conf) ''prompt_processor.summary_cn'') s1)
         | Inr MAP_REDUCE \<Rightarrow>
             store_background planner_input
               (summarize_by_map_reduce fl prompt_manager [content] prompt_llm agent_llm
                  (py_or (pp_summary_prompt_version conf) ''prompt_processor.summary_cn'')
                  (py_or (pp_combine_prompt_version conf) ''prompt_processor.combine_cn'') s1))"
  using over
  by (simp add: process_llm_token_def Let_def model conf[symmetric] agent compress fmt est
      rem[symmetric] content[symmetric] split: sum.splits PromptProcessEnum.splits)

text \<open>
  The fields of the stub template and of the stub profile.
\<close>

lemma stub_template_simps:
  "input_variables stub_template = [''background'']"
  "format stub_template d =
     (case d ''background'' of
        Some (PyStr b) \<Rightarrow> Inr (''Background: '' @ b)
      | Some PyNone \<Rightarrow> Inr ''Background: None''
      | None \<Rightarrow> Inl (Exn OtherError ''missing variable background''))"
  by (simp_all add: stub_template_def)

lemma stub_profile_simps:
  "profile_llm_model (stub_profile ty)
     = Some \<lparr>llm_name = Some ''agent'', llm_prompt_processor = Some (empty_conf\<lparr>pp_type := ty\<rparr>)\<rparr>"
  by (simp add: stub_profile_def)

lemmas controller_eval_simps =
  process_llm_token_def store_background_def stub_template_simps stub_profile_simps
  stub_llm_manager_def stub_prompt_manager_def empty_conf_def py_or_def py_or_opt_def
  from_value_def summarize_by_stuff_def summarize_by_map_reduce_def

text \<open>
  \<^bold>\<open>C7\<close>. Whatever \<open>process_llm_token\<close> does, whether it returns or raises, the
  dictionary it leaves has the value it had at every key other than \<open>background\<close>.
  And when the estimated token count of the formatted prompt is at most
  \<open>max_context_length - max_tokens\<close>, the call returns normally and leaves the whole
  dictionary as it was, \<open>background\<close> included.
\<close>

theorem C7_only_background_is_written:
  "(\<forall>r planner_input' s'.
       process_llm_token fl llm_manager prompt_manager prompt_template profile planner_input s
         = Some (r, planner_input', s')
       \<longrightarrow> (\<forall>k. k \<noteq> ''background'' \<longrightarrow> planner_input' k = planner_input k))
   \<and> (\<forall>llm_model agent_llm prompt_llm prompt prompt_tokens s1.
         profile_llm_model profile = Some llm_model
         \<and> llm_manager (llm_name llm_model) = Inr agent_llm
         \<and> llm_manager (py_or_opt (pp_llm (case llm_prompt_processor llm_model of
                                              None \<Rightarrow> empty_conf | Some d \<Rightarrow> d))
                          (llm_name llm_model)) = Inr prompt_llm
         \<and> format prompt_template (planner_input |` set (input_variables prompt_template))
             = Inr prompt
         \<and> get_num_tokens agent_llm (PyStr prompt) s = (Inr prompt_tokens, s1)
         \<and> prompt_tokens \<le> max_context_length agent_llm - max_tokens agent_llm
       \<longrightarrow> process_llm_token fl llm_manager prompt_manager prompt_template profile planner_input s
             = Some (Inr (), planner_input, s1))"
proof (intro conjI allI impI)
  fix r planner_input' s' k
  assume run: "process_llm_token fl llm_manager prompt_manager prompt_template profile planner_input s
         = Some (r, planner_input', s')" and k: "k \<noteq> ''background''"
  from run show "planner_input' k = planner_input k"
    by (auto simp: process_llm_token_def Let_def store_background_frame[OF _ k]
        split: option.splits sum.splits prod.splits if_splits PromptProcessEnum.splits)
next
  fix llm_model agent_llm prompt_llm prompt prompt_tokens s1
  assume "profile_llm_model profile = Some llm_model
         \<and> llm_manager (llm_name llm_model) = Inr agent_llm
         \<and> llm_manager (py_or_opt (pp_llm (case llm_prompt_processor llm_model of
                                              None \<Rightarrow> empty_conf | Some d \<Rightarrow> d))
                          (llm_name llm_model)) = Inr prompt_llm
         \<and> format prompt_template (planner_input |` set (input_variables prompt_template))
             = Inr prompt
         \<and> get_num_tokens agent_llm (PyStr prompt) s = (Inr prompt_tokens, s1)
         \<and> prompt_tokens \<le> max_context_length agent_llm - max_tokens agent_llm"
  then show "process_llm_token fl llm_manager prompt_manager prompt_template profile planner_input s
             = Some (Inr (), planner_input, s1)"
    by (simp add: process_llm_token_def Let_def)
qed

text \<open>
  C7 on a prompt of 22 tokens and a budget of 3072: the dictionary with the keys
  \<open>background\<close> and \<open>question\<close> is returned as it was.
\<close>

theorem C7_witness:
  "process_llm_token exact
      (stub_llm_manager (stub_llm (\<lambda>n. None) count_chars 4096 1024)) stub_prompt_manager
      stub_template (stub_profile (Some ''truncate''))
      [''background'' \<mapsto> PyStr ''abcdefghij'', ''question'' \<mapsto> PyStr ''why''] 0
     = Some (Inr (), [''background'' \<mapsto> PyStr ''abcdefghij'', ''question'' \<mapsto> PyStr ''why''],
             Suc 0)"
proof -
  let ?llm = "stub_llm (\<lambda>n. None) count_chars 4096 1024 :: (nat, unit) llm"
  have "profile_llm_model (stub_profile (Some ''truncate''))
          = Some \<lparr>llm_name = Some ''agent'',
                  llm_prompt_processor = Some (empty_conf\<lparr>pp_type := Some ''truncate''\<rparr>)\<rparr>
      \<and> stub_llm_manager ?llm (llm_name \<lparr>llm_name = Some ''agent'',
                  llm_prompt_processor = Some (empty_conf\<lparr>pp_type := Some ''truncate''\<rparr>)\<rparr>) = Inr ?llm
      \<and> stub_llm_manager ?llm (py_or_opt (pp_llm (case llm_prompt_processor \<lparr>llm_name = Some ''agent'',
                  llm_prompt_processor = Some (empty_conf\<lparr>pp_type := Some ''truncate''\<rparr>)\<rparr> of
                                              None \<Rightarrow> empty_conf | Some d \<Rightarrow> d))
                          (llm_name \<lparr>llm_name = Some ''agent'',
                  llm_prompt_processor = Some (empty_conf\<lparr>pp_type := Some ''truncate''\<rparr>)\<rparr>)) = Inr ?llm
      \<and> format stub_template ([''background'' \<mapsto> PyStr ''abcdefghij'', ''question'' \<mapsto> PyStr ''why'']
             |` set (input_variables stub_template))
             = Inr ''Background: abcdefghij''
      \<and> get_num_tokens ?llm (PyStr ''Background: abcdefghij'') 0 = (Inr 22, Suc 0)
      \<and> 22 \<le> max_context_length ?llm - max_tokens ?llm"
    by (simp add: stub_profile_simps stub_llm_manager_def stub_template_simps stub_llm_simps
        count_chars_def empty_conf_def py_or_opt_def restrict_map_def)
  then show ?thesis
    by (rule C7_only_background_is_written[THEN conjunct2, rule_format])
qed

text \<open>
  \<^bold>\<open>C8\<close>. On a prompt over budget, the call of the controller is exactly
  \<^item> the assignment of \<open>truncate_content\<close> (on the background, the remaining tokens and
    the target model) when the type is \<open>truncate\<close>, is absent or is empty;
  \<^item> the assignment of \<open>summarize_by_stuff\<close> when the type is \<open>stuff\<close>;
  \<^item> the assignment of \<open>summarize_by_map_reduce\<close> when the type is \<open>map_reduce\<close>;
  with the compression model equal to the target model when the option \<open>llm\<close> is absent,
  and the versions \<open>prompt_processor.summary_cn\<close> and \<open>prompt_processor.combine_cn\<close>
  when the options are absent. The equations are between whole results, the state of
  the collaborators included, so no other collaborator is called.
\<close>

theorem C8_policy_dispatch:
  assumes model: "profile_llm_model profile = Some llm_model"
    and conf: "conf = (case llm_prompt_processor llm_model of None \<Rightarrow> empty_conf | Some d \<Rightarrow> d)"
    and agent: "llm_manager (llm_name llm_model) = Inr agent_llm"
    and compress: "llm_manager (py_or_opt (pp_llm conf) (llm_name llm_model)) = Inr prompt_llm"
    and fmt: "format prompt_template (planner_input |` set (input_variables prompt_template))
                = Inr prompt"
    and est: "get_num_tokens agent_llm (PyStr prompt) s = (Inr prompt_tokens, s1)"
    and rem: "remaining_tokens = max_context_length agent_llm - max_tokens agent_llm"
    and over: "remaining_tokens < prompt_tokens"
    and content: "content = (case planner_input ''background'' of None \<Rightarrow> PyNone | Some v \<Rightarrow> v)"
  shows "(pp_type conf \<in> {None, Some '''', Some ''truncate''} \<longrightarrow>
            process_llm_token fl llm_manager prompt_manager prompt_template profile planner_input s
              = store_background planner_input
                  (truncate_content fl content remaining_tokens agent_llm s1))
       \<and> (pp_type conf = Some ''stuff'' \<longrightarrow>
            process_llm_token fl llm_manager prompt_manager prompt_template profile planner_input s
              = store_background planner_input
                  (summarize_by_stuff prompt_manager [content] prompt_llm
                     (py_or (pp_summary_prompt_version conf) ''prompt_processor.summary_cn'') s1))
       \<and> (pp_type conf = Some ''map_reduce'' \<longrightarrow>
            process_llm_token fl llm_manager prompt_manager prompt_template profile planner_input s
              = store_background planner_input
                  (summarize_by_map_reduce fl prompt_manager [content] prompt_llm agent_llm
                     (py_or (pp_summary_prompt_version conf) ''prompt_processor.summary_cn'')
                     (py_or (pp_combine_prompt_version conf) ''prompt_processor.combine_cn'') s1))
       \<and> (pp_llm conf = None \<longrightarrow> prompt_llm = agent_llm)
       \<and> py_or None ''prompt_processor.summary_cn'' = ''prompt_processor.summary_cn''
       \<and> py_or None ''prompt_processor.combine_cn'' = ''prompt_processor.combine_cn''"
proof -
  note run = process_llm_token_over_budget[OF model conf agent compress fmt est rem over content,
      of fl prompt_manager]
  have t: "pp_type conf \<in> {None, Some '''', Some ''truncate''} \<Longrightarrow>
             from_value (py_or (pp_type conf) (enum_value TRUNCATE)) = Inr TRUNCATE"
    by (auto simp: py_or_def from_value_def)
  have st: "pp_type conf = Some ''stuff'' \<Longrightarrow>
             from_value (py_or (pp_type conf) (enum_value TRUNCATE)) = Inr STUFF"
    by (simp add: py_or_def from_value_def)
  have mr: "pp_type conf = Some ''map_reduce'' \<Longrightarrow>
             from_value (py_or (pp_type conf) (enum_value TRUNCATE)) = Inr MAP_REDUCE"
    by (simp add: py_or_def from_value_def)
  have same: "pp_llm conf = None \<Longrightarrow> prompt_llm = agent_llm"
    using agent compress by (simp add: py_or_opt_def)
  show ?thesis
    using t st mr same by (simp add: run py_or_def)
qed

text \<open>
  C8 on a background of 200 letters \<open>a\<close> with a budget of 150 tokens, for the types
  \<open>truncate\<close>, \<open>stuff\<close> and \<open>map_reduce\<close> and for an absent type.
\<close>

theorem C8_witness:
  "process_llm_token exact
      (stub_llm_manager (stub_llm (\<lambda>n. None) count_chars 250 100)) stub_prompt_manager
      stub_template (stub_profile (Some ''truncate''))
      [''background'' \<mapsto> PyStr (replicate 200 CHR ''a'')] 0
     = Some (Inr (), [''background'' \<mapsto> PyStr (replicate 150 CHR ''a'')], Suc (Suc 0))
   \<and> process_llm_token exact
      (stub_llm_manager (stub_llm (\<lambda>n. None) count_chars 250 100)) stub_prompt_manager
      stub_template (stub_profile (Some ''stuff''))
      [''background'' \<mapsto> PyStr (replicate 200 CHR ''a'')] 0
     = Some (Inr (), [''background'' \<mapsto> PyStr ''stuff summary''], Suc 0)
   \<and> process_llm_token exact
      (stub_llm_manager (stub_llm (\<lambda>n. None) count_chars 250 100)) stub_prompt_manager
      stub_template (stub_profile (Some ''map_reduce''))
      [''background'' \<mapsto> PyStr (replicate 200 CHR ''a'')] 0
     = Some (Inr (), [''background'' \<mapsto> PyStr ''map-reduce summary''], Suc (Suc 0))
   \<and> process_llm_token exact
      (stub_llm_manager (stub_llm (\<lambda>n. None) count_chars 250 100)) stub_prompt_manager
      stub_template (stub_profile None)
      [''background'' \<mapsto> PyStr (replicate 200 CHR ''a'')] 0
     = Some (Inr (), [''background'' \<mapsto> PyStr (replicate 150 CHR ''a'')], Suc (Suc 0))"
proof -
  let ?llm = "stub_llm (\<lambda>n. None) count_chars 250 100 :: (nat, unit) llm"
  let ?m = "[''background'' \<mapsto> PyStr (replicate 200 CHR ''a'')]"
  have d: "process_llm_token exact (stub_llm_manager ?llm) stub_prompt_manager
             stub_template (stub_profile ty) ?m 0
           = (if ty \<in> {None, Some '''', Some ''truncate''} then
                store_background ?m (truncate_content exact (PyStr (replicate 200 CHR ''a'')) 150 ?llm (Suc 0))
              else if ty = Some ''stuff'' then
                store_background ?m (summarize_by_stuff stub_prompt_manager
                   [PyStr (replicate 200 CHR ''a'')] ?llm ''prompt_processor.summary_cn'' (Suc 0))
              else if ty = Some ''map_reduce'' then
                store_background ?m (summarize_by_map_reduce exact stub_prompt_manager
                   [PyStr (replicate 200 CHR ''a'')] ?llm ?llm ''prompt_processor.summary_cn''
                   ''prompt_processor.combine_cn'' (Suc 0))
              else process_llm_token exact (stub_llm_manager ?llm) stub_prompt_manager
                     stub_template (stub_profile ty) ?m 0)" for ty
    using C8_policy_dispatch[of "stub_profile ty"
        "\<lparr>llm_name = Some ''agent'', llm_prompt_processor = Some (empty_conf\<lparr>pp_type := ty\<rparr>)\<rparr>"
        "empty_conf\<lparr>pp_type := ty\<rparr>" "stub_llm_manager ?llm" ?llm ?llm stub_template ?m
        "''Background: '' @ replicate 200 CHR ''a''" 0 212 "Suc 0" 150
        "PyStr (replicate 200 CHR ''a'')" exact stub_prompt_manager]
    by (simp add: stub_profile_simps stub_llm_manager_def stub_template_simps stub_llm_simps
        count_chars_def empty_conf_def py_or_opt_def py_or_def restrict_map_def)
  have tr: "truncate_content exact (PyStr (replicate 200 CHR ''a'')) 150 ?llm (Suc 0)
              = Some (Inr (replicate 150 CHR ''a''), Suc (Suc 0))"
    by (simp add: eval_simps)
  have mr: "split_texts exact [PyStr (replicate 200 CHR ''a'')] ?llm 800 100 True (Suc 0)
              = Some (Inr [replicate 200 CHR ''a''], Suc (Suc 0))"
    by (simp add: eval_simps)
  show ?thesis
    by (simp add: d tr mr store_background_def summarize_by_stuff_def summarize_by_map_reduce_def
        stub_prompt_manager_def stub_llm_simps)
qed

text \<open>
  \<^bold>\<open>C1\<close>. The specification states that the TRUNCATE policy always leaves a background
  of at most \<open>remaining_tokens\<close> tokens, and \<open>truncate_content\<close> is documented to
  ``truncate the content based on the llm token limit''. The code does not, on two runs
  with an estimator of one token per character:
  \<^item> a background of 10 tokens with 5 remaining tokens: \<open>truncate_content\<close> splits
    with the default overlap of 100 tokens, which is more than the text has, gets no
    chunk and raises \<^verbatim>\<open>IndexError\<close> at the unguarded \<^verbatim>\<open>[0]\<close>; the background
    keeps its 10 tokens;
  \<^item> a background of 1000 tokens with 500 remaining tokens and an estimator that raises
    once, on the background: the retry of \<open>split_texts\<close> drops the limit and runs with
    the default chunk size of 800 tokens, the controller returns normally, and the
    background is rewritten to 800 characters, 800 tokens.
\<close>

theorem C1_truncate_leaves_background_over_budget:
  "process_llm_token exact
      (stub_llm_manager (stub_llm (\<lambda>n. None) count_chars 10 5)) stub_prompt_manager
      stub_template (stub_profile (Some ''truncate''))
      [''background'' \<mapsto> PyStr ''abcdefghij''] 0
     = Some (Inl (Exn IndexError ''list index out of range''),
             [''background'' \<mapsto> PyStr ''abcdefghij''], Suc (Suc 0))
   \<and> process_llm_token exact
      (stub_llm_manager
         (stub_llm (\<lambda>n. if n = 1 then Some ''timeout'' else None) count_chars 600 100))
      stub_prompt_manager stub_template (stub_profile (Some ''truncate''))
      [''background'' \<mapsto> PyStr (replicate 1000 CHR ''a'')] 0
     = Some (Inr (), [''background'' \<mapsto> PyStr (replicate 800 CHR ''a'')], Suc (Suc (Suc 0)))
   \<and> count_chars (PyStr (replicate 800 CHR ''a'')) = 800"
  by (simp add: controller_eval_simps eval_simps restrict_map_def)

end
